theory Spec2Isabelle
  imports Main "HOL-Library.Sublist" "HOL-Library.AList" "HOL-Library.Multiset" "HOL-Library.Word"
begin

section \<open>Data model (shared/schema.ts)\<close>

text \<open>
  JavaScript numbers that hold identifiers, counters, byte offsets and millisecond
  timestamps are modelled as integers: the integer-valued doubles. Sums and
  differences of byte offsets are taken exactly, which is what the doubles do up to
  \<open>2 ^ 53\<close>; \<open>x + 1\<close> and \<open>x++\<close> on a counter or an identifier are \<open>plus_one\<close> below,
  which rounds as the doubles do. Numbers that are not integers are outside the model.

  Strings that name things (user names, paths, categories, header values) are
  \<open>char list\<close>, that is, strings of UTF-16 code units below 256. The strings that the
  search reads, a video's title and description and the query, are lists of UTF-16
  code units of any value (\<open>ustring\<close>). A nullable or optional column is an \<open>option\<close>
  (\<open>None\<close> for \<open>null\<close> and \<open>undefined\<close>).
\<close>

type_synonym code_unit = nat

type_synonym ustring = "code_unit list"

definition text_of :: "string \<Rightarrow> ustring" where
  \<comment> \<open>the code units of a string of 8-bit characters\<close>
  "text_of cs = map of_char cs"

definition plus_one :: "int \<Rightarrow> int" where
  \<comment> \<open>\<open>x + 1\<close> in double arithmetic (round to nearest, ties to even) for an
      integer-valued double \<open>x\<close>: exact while the sum is at most \<open>2 ^ 53\<close> in magnitude;
      between \<open>2 ^ 53\<close> and \<open>2 ^ 54\<close> the doubles are the even integers and the sum is
      a tie; from \<open>2 ^ 54\<close> on the sum rounds back to \<open>x\<close>\<close>
  "plus_one x =
     (if - (2 ^ 53) \<le> x \<and> x < 2 ^ 53 then x + 1
      else if - (2 ^ 54) \<le> x \<and> x < 2 ^ 54 then (if even (x div 2) then x else x + 2)
      else x)"

record user =
  uid :: int
  username :: string
  password :: string
  isAdmin :: bool

record insertUser =
  iu_username :: string
  iu_password :: string
  iu_isAdmin :: "bool option"

record video =
  vid :: int
  title :: ustring
  description :: "ustring option"
  fileName :: "string option"
  filePath :: "string option"
  embedUrl :: "string option"
  isEmbedded :: "bool option"
  thumbnailPath :: "string option"
  category :: "string option"
  uploaderId :: int
  views :: int
  uploadDate :: int
  duration :: "int option"

text \<open>\<open>InsertVideo\<close>: the video columns without \<open>id\<close>, \<open>views\<close> and \<open>uploadDate\<close>.\<close>

record insertVideo =
  iv_title :: ustring
  iv_description :: "ustring option"
  iv_fileName :: "string option"
  iv_filePath :: "string option"
  iv_embedUrl :: "string option"
  iv_isEmbedded :: "bool option"
  iv_thumbnailPath :: "string option"
  iv_category :: "string option"
  iv_uploaderId :: int
  iv_duration :: "int option"

text \<open>
  The patch that \<open>updateVideo\<close> spreads over a record. Its declared type is
  \<open>Partial<InsertVideo>\<close>, but the value it gets is the request body of
  \<open>PUT /videos/:id\<close> as the client sent it, so every key of a video can be there,
  \<open>id\<close>, \<open>views\<close> and \<open>uploadDate\<close> included. \<open>None\<close> is a key that is absent from
  the patch, \<open>Some x\<close> a key that is present with value \<open>x\<close> (itself \<open>None\<close> for \<open>null\<close>
  on a nullable column). Keys of other names and values of another type than the
  column's are outside the model.
\<close>

record videoUpdates =
  up_id :: "int option"
  up_title :: "ustring option"
  up_description :: "ustring option option"
  up_fileName :: "string option option"
  up_filePath :: "string option option"
  up_embedUrl :: "string option option"
  up_isEmbedded :: "bool option option"
  up_thumbnailPath :: "string option option"
  up_category :: "string option option"
  up_uploaderId :: "int option"
  up_views :: "int option"
  up_uploadDate :: "int option"
  up_duration :: "int option option"

record category_row =
  cid :: int
  name :: string

definition DEFAULT_CATEGORIES :: "string list" where
  "DEFAULT_CATEGORIES =
     [''All'', ''Travel'', ''Sports'', ''Education'', ''Technology'', ''Entertainment'', ''Music'']"

section \<open>The in-memory store (MemStorage)\<close>

text \<open>
  A JavaScript \<open>Map\<close> iterates in insertion order, \<open>set\<close> on a key that is present
  keeps the key's position and \<open>set\<close> on a new key appends: an association list with
  \<open>AList.update\<close>. \<open>Array.from(m.values())\<close> is \<open>map snd\<close>.
\<close>

record MemStorage =
  users :: "(int \<times> user) list"
  videos :: "(int \<times> video) list"
  categories :: "(int \<times> category_row) list"
  nextUserId :: int
  nextVideoId :: int
  nextCategoryId :: int

definition getUser :: "MemStorage \<Rightarrow> int \<Rightarrow> user option" where
  "getUser s i = map_of (users s) i"

definition getUserByUsername :: "MemStorage \<Rightarrow> string \<Rightarrow> user option" where
  "getUserByUsername s n = find (\<lambda>u. username u = n) (map snd (users s))"

definition createUser :: "MemStorage \<Rightarrow> insertUser \<Rightarrow> user \<times> MemStorage" where
  "createUser s iu =
     (let i = nextUserId s;
          u = \<lparr>uid = i, username = iu_username iu, password = iu_password iu,
               isAdmin = (iu_isAdmin iu = Some True)\<rparr>
      in (u, s\<lparr>nextUserId := plus_one i, users := AList.update i u (users s)\<rparr>))"

definition getAllUsers :: "MemStorage \<Rightarrow> user list" where
  "getAllUsers s = map snd (users s)"

definition updateUserPassword :: "MemStorage \<Rightarrow> int \<Rightarrow> string \<Rightarrow> user option \<times> MemStorage" where
  "updateUserPassword s i newPassword =
     (case map_of (users s) i of
        None \<Rightarrow> (None, s)
      | Some u \<Rightarrow>
          (let updatedUser = u\<lparr>password := newPassword\<rparr>
           in (Some updatedUser, s\<lparr>users := AList.update i updatedUser (users s)\<rparr>)))"

definition getVideo :: "MemStorage \<Rightarrow> int \<Rightarrow> video option" where
  "getVideo s i = map_of (videos s) i"

text \<open>
  The comparator \<open>(a, b) => time b - time a\<close> orders by upload date, newest first;
  \<open>Array.prototype.sort\<close> is stable, as is insertion sort on the negated key.
\<close>

definition sortNewestFirst :: "video list \<Rightarrow> video list" where
  "sortNewestFirst vs = sort_key (\<lambda>v. - uploadDate v) vs"

definition getAllVideos :: "MemStorage \<Rightarrow> video list" where
  "getAllVideos s = sortNewestFirst (map snd (videos s))"

definition getVideosByCategory :: "MemStorage \<Rightarrow> string \<Rightarrow> video list" where
  "getVideosByCategory s c =
     (if c = ''All'' then getAllVideos s
      else sortNewestFirst (filter (\<lambda>v. category v = Some c) (map snd (videos s))))"

definition createVideo :: "MemStorage \<Rightarrow> insertVideo \<Rightarrow> int \<Rightarrow> video \<times> MemStorage" where
  \<comment> \<open>the third argument is the clock reading \<open>new Date()\<close>\<close>
  "createVideo s iv now =
     (let i = nextVideoId s;
          v = \<lparr>vid = i, title = iv_title iv, description = iv_description iv,
               fileName = iv_fileName iv, filePath = iv_filePath iv,
               embedUrl = iv_embedUrl iv, isEmbedded = iv_isEmbedded iv,
               thumbnailPath = iv_thumbnailPath iv, category = iv_category iv,
               uploaderId = iv_uploaderId iv, views = 0, uploadDate = now,
               duration = iv_duration iv\<rparr>
      in (v, s\<lparr>nextVideoId := plus_one i, videos := AList.update i v (videos s)\<rparr>))"

definition override :: "'a \<Rightarrow> 'a option \<Rightarrow> 'a" where
  "override old new = (case new of None \<Rightarrow> old | Some x \<Rightarrow> x)"

definition applyUpdates :: "video \<Rightarrow> videoUpdates \<Rightarrow> video" where
  \<comment> \<open>\<open>{ ...existingVideo, ...updates }\<close>: every key of the patch wins\<close>
  "applyUpdates v u =
     v\<lparr>vid := override (vid v) (up_id u),
       title := override (title v) (up_title u),
       description := override (description v) (up_description u),
       fileName := override (fileName v) (up_fileName u),
       filePath := override (filePath v) (up_filePath u),
       embedUrl := override (embedUrl v) (up_embedUrl u),
       isEmbedded := override (isEmbedded v) (up_isEmbedded u),
       thumbnailPath := override (thumbnailPath v) (up_thumbnailPath u),
       category := override (category v) (up_category u),
       uploaderId := override (uploaderId v) (up_uploaderId u),
       views := override (views v) (up_views u),
       uploadDate := override (uploadDate v) (up_uploadDate u),
       duration := override (duration v) (up_duration u)\<rparr>"

definition updateVideo :: "MemStorage \<Rightarrow> int \<Rightarrow> videoUpdates \<Rightarrow> video option \<times> MemStorage" where
  "updateVideo s i updates =
     (case map_of (videos s) i of
        None \<Rightarrow> (None, s)
      | Some existingVideo \<Rightarrow>
          (let updatedVideo = applyUpdates existingVideo updates
           in (Some updatedVideo, s\<lparr>videos := AList.update i updatedVideo (videos s)\<rparr>)))"

definition deleteVideo :: "MemStorage \<Rightarrow> int \<Rightarrow> bool \<times> MemStorage" where
  "deleteVideo s i =
     (map_of (videos s) i \<noteq> None, s\<lparr>videos := AList.delete i (videos s)\<rparr>)"

definition incrementViews :: "MemStorage \<Rightarrow> int \<Rightarrow> video option \<times> MemStorage" where
  "incrementViews s i =
     (case map_of (videos s) i of
        None \<Rightarrow> (None, s)
      | Some v \<Rightarrow>
          (let updatedVideo = v\<lparr>views := plus_one (views v)\<rparr>
           in (Some updatedVideo, s\<lparr>videos := AList.update i updatedVideo (videos s)\<rparr>)))"

text \<open>
  \<open>String.prototype.toLowerCase\<close> is the Unicode default lower-case conversion. It is
  tabulated here for the code units below 256 (Basic Latin and Latin-1) and for the
  Greek letters from Alpha to Omega with dialytika, upper case \<open>0x391\<close> to \<open>0x3AB\<close>
  and lower case \<open>0x3B1\<close> to \<open>0x3CB\<close>; a string with another code unit is outside the
  model. In that repertoire each letter maps to one letter, and the only mapping
  that looks at its neighbours is that of capital sigma (\<open>0x3A3\<close>): it becomes the
  final sigma \<open>0x3C2\<close> when a cased letter comes before it, case-ignorable characters
  skipped, and no cased letter comes after it in the same way, and \<open>0x3C3\<close>
  otherwise.
\<close>

definition lowerUnit :: "code_unit \<Rightarrow> code_unit" where
  \<comment> \<open>the mapping of a code unit on its own\<close>
  "lowerUnit c =
     (if (65 \<le> c \<and> c \<le> 90) \<or> (192 \<le> c \<and> c \<le> 214) \<or> (216 \<le> c \<and> c \<le> 222)
         \<or> (913 \<le> c \<and> c \<le> 929) \<or> (931 \<le> c \<and> c \<le> 939)
      then c + 32 else c)"

definition cased :: "code_unit \<Rightarrow> bool" where
  "cased c =
     ((65 \<le> c \<and> c \<le> 90) \<or> (97 \<le> c \<and> c \<le> 122) \<or> c = 170 \<or> c = 181 \<or> c = 186
      \<or> (192 \<le> c \<and> c \<le> 214) \<or> (216 \<le> c \<and> c \<le> 246) \<or> (248 \<le> c \<and> c \<le> 255)
      \<or> (913 \<le> c \<and> c \<le> 929) \<or> (931 \<le> c \<and> c \<le> 939) \<or> (945 \<le> c \<and> c \<le> 971))"

definition case_ignorable :: "code_unit \<Rightarrow> bool" where
  "case_ignorable c = (c \<in> {39, 46, 58, 94, 96, 168, 173, 175, 180, 183, 184})"

definition next_is_cased :: "ustring \<Rightarrow> bool" where
  \<comment> \<open>the first character that is not case-ignorable exists and is cased\<close>
  "next_is_cased t =
     (case dropWhile case_ignorable t of [] \<Rightarrow> False | c # _ \<Rightarrow> cased c)"

fun lower_from :: "ustring \<Rightarrow> ustring \<Rightarrow> ustring" where
  \<comment> \<open>the first argument is what has been read, last character first\<close>
  "lower_from before [] = []"
| "lower_from before (c # cs) =
     (if c = 931
      then (if next_is_cased before \<and> \<not> next_is_cased cs then 962 else 963)
      else lowerUnit c)
     # lower_from (c # before) cs"

definition toLowerCase :: "ustring \<Rightarrow> ustring" where
  "toLowerCase t = lower_from [] t"

text \<open>\<open>String.prototype.includes\<close> as a scan over the start positions.\<close>

fun str_includes :: "'a list \<Rightarrow> 'a list \<Rightarrow> bool" where
  "str_includes [] needle = (needle = [])"
| "str_includes (c # cs) needle = (prefix needle (c # cs) \<or> str_includes cs needle)"

definition searchMatch :: "ustring \<Rightarrow> video \<Rightarrow> bool" where
  \<comment> \<open>the filter callback; \<open>description &&\<close> is falsy for \<open>null\<close> and for the empty string\<close>
  "searchMatch lowerQuery v =
     (str_includes (toLowerCase (title v)) lowerQuery
      \<or> (case description v of
            None \<Rightarrow> False
          | Some d \<Rightarrow> d \<noteq> [] \<and> str_includes (toLowerCase d) lowerQuery))"

definition searchVideos :: "MemStorage \<Rightarrow> ustring \<Rightarrow> video list" where
  "searchVideos s query =
     (let lowerQuery = toLowerCase query
      in sortNewestFirst (filter (searchMatch lowerQuery) (map snd (videos s))))"

definition getAllCategories :: "MemStorage \<Rightarrow> category_row list" where
  "getAllCategories s = map snd (categories s)"

definition createCategory :: "MemStorage \<Rightarrow> string \<Rightarrow> category_row \<times> MemStorage" where
  "createCategory s n =
     (let i = nextCategoryId s; c = \<lparr>cid = i, name = n\<rparr>
      in (c, s\<lparr>nextCategoryId := plus_one i, categories := AList.update i c (categories s)\<rparr>))"

definition MemStorage_new :: MemStorage where
  \<comment> \<open>the constructor: empty maps, the admin user, the default categories\<close>
  "MemStorage_new =
     (let s0 = \<lparr>users = [], videos = [], categories = [],
                nextUserId = 1, nextVideoId = 1, nextCategoryId = 1\<rparr>;
          s1 = snd (createUser s0 \<lparr>iu_username = ''admin'', iu_password = ''admin123'',
                                  iu_isAdmin = Some True\<rparr>)
      in foldl (\<lambda>s n. snd (createCategory s n)) s1 DEFAULT_CATEGORIES)"

subsection \<open>The operations that write\<close>

text \<open>
  The operations of \<open>IStorage\<close> that write to the store; the remaining ones
  (\<open>getUser\<close>, \<open>getAllVideos\<close>, \<open>searchVideos\<close>, ...) return the store as it is.
\<close>

datatype store_op =
    CreateUser insertUser
  | UpdateUserPassword int string
  | CreateVideo insertVideo int
  | UpdateVideo int videoUpdates
  | DeleteVideo int
  | IncrementViews int
  | CreateCategory string

fun apply_op :: "MemStorage \<Rightarrow> store_op \<Rightarrow> MemStorage" where
  "apply_op s (CreateUser iu) = snd (createUser s iu)"
| "apply_op s (UpdateUserPassword i p) = snd (updateUserPassword s i p)"
| "apply_op s (CreateVideo iv now) = snd (createVideo s iv now)"
| "apply_op s (UpdateVideo i u) = snd (updateVideo s i u)"
| "apply_op s (DeleteVideo i) = snd (deleteVideo s i)"
| "apply_op s (IncrementViews i) = snd (incrementViews s i)"
| "apply_op s (CreateCategory n) = snd (createCategory s n)"

definition patches_views :: "store_op \<Rightarrow> bool" where
  \<comment> \<open>an \<open>updateVideo\<close> whose patch has a \<open>views\<close> key\<close>
  "patches_views op = (case op of UpdateVideo i u \<Rightarrow> up_views u \<noteq> None | _ \<Rightarrow> False)"

definition incrementViewsTimes :: "nat \<Rightarrow> MemStorage \<Rightarrow> int \<Rightarrow> MemStorage" where
  \<comment> \<open>\<open>incrementViews(i)\<close> called \<open>N\<close> times in a row\<close>
  "incrementViewsTimes N s i = ((\<lambda>t. snd (incrementViews t i)) ^^ N) s"

subsection \<open>What the search is specified to find\<close>







section \<open>JavaScript and Node primitives used by the routes\<close>

text \<open>
  \<open>parseInt(string, radix)\<close> after ECMAScript: leading white space is skipped, a sign is
  read, a \<open>0x\<close> prefix switches to radix 16 when the radix is absent or 16, and the
  longest prefix of digits of the radix is the value; no digit at all gives \<open>NaN\<close>,
  which is \<open>None\<close> here. The radix argument is \<open>None\<close> when the call passes none.
  White space is the white space among the code units below 256: tab, line feed,
  vertical tab, form feed, carriage return, space and no-break space. The value of
  the digits is rounded to the nearest double, ties to even (\<open>nearest_double\<close>), which
  changes it only above \<open>2 ^ 53\<close>; a value so large that the double is \<open>Infinity\<close> is
  outside the model.
\<close>

function ulp :: "nat \<Rightarrow> nat" where
  \<comment> \<open>the distance between neighbouring doubles at a magnitude: 1 below \<open>2 ^ 53\<close>,
      2 below \<open>2 ^ 54\<close>, and so on\<close>
  "ulp a = (if a < 2 ^ 53 then 1 else 2 * ulp (a div 2))"
  by pat_completeness auto
termination
  by (relation "measure id") auto

declare ulp.simps [simp del]

definition nearest_double :: "int \<Rightarrow> int" where
  "nearest_double n =
     (let u = int (ulp (nat \<bar>n\<bar>)); q = n div u; r = n mod u
      in if 2 * r < u then q * u
         else if u < 2 * r then (q + 1) * u
         else if even q then q * u else (q + 1) * u)"


definition isWhiteSpace :: "char \<Rightarrow> bool" where
  "isWhiteSpace c = ((of_char c :: nat) \<in> {9, 10, 11, 12, 13, 32, 160})"

definition digitValue :: "char \<Rightarrow> nat" where
  \<comment> \<open>36 for a character that is a digit in no radix\<close>
  "digitValue c =
     (let n = (of_char c :: nat)
      in if 48 \<le> n \<and> n \<le> 57 then n - 48
         else if 97 \<le> n \<and> n \<le> 122 then n - 87
         else if 65 \<le> n \<and> n \<le> 90 then n - 55
         else 36)"

definition digitsValue :: "nat \<Rightarrow> string \<Rightarrow> nat" where
  "digitsValue R z = foldl (\<lambda>a c. a * R + digitValue c) 0 z"

definition parseInt :: "string \<Rightarrow> nat option \<Rightarrow> int option" where
  "parseInt str radix =
     (let S = dropWhile isWhiteSpace str;
          sign = (if S \<noteq> [] \<and> hd S = CHR ''-'' then - 1 else (1 :: int));
          S1 = (if S \<noteq> [] \<and> (hd S = CHR ''+'' \<or> hd S = CHR ''-'') then tl S else S);
          R0 = (case radix of None \<Rightarrow> 0 | Some r \<Rightarrow> r)
      in if R0 \<noteq> 0 \<and> (R0 < 2 \<or> 36 < R0) then None
         else
           (let hasPrefix = ((R0 = 0 \<or> R0 = 16) \<and> (take 2 S1 = ''0x'' \<or> take 2 S1 = ''0X''));
                S2 = (if hasPrefix then drop 2 S1 else S1);
                R = (if hasPrefix then 16 else if R0 = 0 then 10 else R0);
                Z = takeWhile (\<lambda>c. digitValue c < R) S2
            in if Z = [] then None
               else Some (sign * nearest_double (int (digitsValue R Z)))))"

text \<open>\<open>s.replace(/pat/, rep)\<close> for a literal pattern: the first occurrence is replaced.\<close>

fun replace_first :: "string \<Rightarrow> string \<Rightarrow> string \<Rightarrow> string" where
  "replace_first pat rep [] = (if pat = [] then rep else [])"
| "replace_first pat rep (c # cs) =
     (if prefix pat (c # cs) then rep @ drop (length pat) (c # cs)
      else c # replace_first pat rep cs)"

text \<open>\<open>s.split(sep)\<close> for a one-character separator: always at least one part.\<close>

fun split_on :: "char \<Rightarrow> string \<Rightarrow> string list" where
  "split_on sep [] = [[]]"
| "split_on sep (c # cs) =
     (if c = sep then [] # split_on sep cs
      else (case split_on sep cs of
              [] \<Rightarrow> [[c]]
            | w # ws \<Rightarrow> (c # w) # ws))"

definition part :: "string list \<Rightarrow> nat \<Rightarrow> string option" where
  \<comment> \<open>\<open>parts[i]\<close>; \<open>undefined\<close> beyond the end\<close>
  "part ps i = (if i < length ps then Some (ps ! i) else None)"

definition nonEmpty :: "'a list option \<Rightarrow> 'a list option" where
  \<comment> \<open>truthiness of a string that may be \<open>undefined\<close>: the empty string is falsy\<close>
  "nonEmpty x = (case x of None \<Rightarrow> None | Some s \<Rightarrow> if s = [] then None else Some s)"

text \<open>Decimal rendering of a number in a template literal or a header value.\<close>

fun showNat :: "nat \<Rightarrow> string" where
  "showNat n =
     (if n < 10 then [char_of (48 + n)]
      else showNat (n div 10) @ [char_of (48 + n mod 10)])"

declare showNat.simps [simp del]

definition showInt :: "int \<Rightarrow> string" where
  "showInt i = (if i < 0 then CHR ''-'' # showNat (nat (- i)) else showNat (nat i))"

text \<open>
  The disk: the regular files by path. \<open>fs.existsSync\<close> is false for \<open>null\<close>.
  \<open>fs.createReadStream(path, {start, end})\<close> checks its options when it is called:
  both must be integers from \<open>0\<close> to \<open>Number.MAX_SAFE_INTEGER\<close> with \<open>start \<le> end\<close>,
  otherwise it throws a \<open>RangeError\<close>. The stream then yields the bytes at the
  offsets \<open>start\<close> to \<open>end\<close> inclusive, as far as the file has them.
\<close>

type_synonym byte = "8 word"

type_synonym disk = "string \<rightharpoonup> byte list"

definition existing_file :: "disk \<Rightarrow> string option \<Rightarrow> byte list option" where
  "existing_file d p = (case p of None \<Rightarrow> None | Some q \<Rightarrow> d q)"

definition MAX_SAFE_INTEGER :: int where
  "MAX_SAFE_INTEGER = 2 ^ 53 - 1"

definition createReadStream :: "byte list \<Rightarrow> int option \<Rightarrow> int option \<Rightarrow> string + byte list" where
  "createReadStream content start end =
     (case (start, end) of
        (Some s, Some e) \<Rightarrow>
          if 0 \<le> s \<and> s \<le> MAX_SAFE_INTEGER \<and> 0 \<le> e \<and> e \<le> MAX_SAFE_INTEGER \<and> s \<le> e
          then Inr (take (nat (e - s + 1)) (drop (nat s) content))
          else Inl ''ERR_OUT_OF_RANGE''
      | _ \<Rightarrow> Inl ''ERR_OUT_OF_RANGE'')"

section \<open>The REST routes (registerRoutes)\<close>

text \<open>
  A response is its status, the headers the handler passes to \<open>writeHead\<close>, and its
  body. \<open>res.json(x)\<close> answers with status 200, \<open>res.status(n).json(x)\<close> with \<open>n\<close>.
  \<open>NextError\<close> is an error that a middleware hands to Express instead of a response
  from the route.
\<close>

datatype body =
    Message string
  | ValidationErrors
  | NoValue
  | VideoJson video
  | VideoListJson "video list"
  | FileStream "byte list"

record response =
  status :: nat
  headers :: "(string \<times> string) list"
  body :: body

datatype outcome = Respond response | NextError string

definition json :: "nat \<Rightarrow> body \<Rightarrow> response" where
  "json n b = \<lparr>status = n, headers = [], body = b\<rparr>"

text \<open>
  The server: the store, the disk, and the session of the requesting client
  (\<open>req.session.user\<close>, the user record as it was at login).
\<close>

record server =
  storage :: MemStorage
  disk :: disk
  session :: "user option"

subsection \<open>POST /auth/change-password\<close>

text \<open>
  A field of a parsed JSON body: absent, \<open>null\<close>, of another type than the schema
  asks for, or a value of the right type.
\<close>

datatype 'a jsval = Undefined | Null | WrongType | Val 'a

record passwordChangeBody =
  currentPassword :: "string jsval"
  newPassword :: "string jsval"
  confirmPassword :: "string jsval"

definition passwordChangeSchema :: "passwordChangeBody \<Rightarrow> (string \<times> string \<times> string) option" where
  \<comment> \<open>\<open>schema.parse\<close>: \<open>None\<close> is the \<open>ZodError\<close>\<close>
  "passwordChangeSchema b =
     (case (currentPassword b, newPassword b, confirmPassword b) of
        (Val c, Val n, Val k) \<Rightarrow>
          if 1 \<le> length c \<and> 6 \<le> length n \<and> 6 \<le> length k \<and> n = k then Some (c, n, k)
          else None
      | _ \<Rightarrow> None)"

definition post_auth_change_password :: "server \<Rightarrow> passwordChangeBody \<Rightarrow> response \<times> server" where
  "post_auth_change_password srv b =
     (case session srv of
        None \<Rightarrow> (json 401 (Message ''Unauthorized''), srv)
      | Some su \<Rightarrow>
          (case passwordChangeSchema b of
             None \<Rightarrow> (json 400 ValidationErrors, srv)
           | Some (cur, new, _) \<Rightarrow>
               (let userId = uid su
                in case getUser (storage srv) userId of
                     None \<Rightarrow> (json 404 (Message ''User not found''), srv)
                   | Some u \<Rightarrow>
                       if password u \<noteq> cur
                       then (json 400 (Message ''Current password is incorrect''), srv)
                       else
                         (case updateUserPassword (storage srv) userId new of
                            (updatedUser, st) \<Rightarrow>
                              (json 200 (Message ''Password updated successfully''),
                               srv\<lparr>storage := st,
                                   session := (case updatedUser of
                                                 None \<Rightarrow> session srv
                                               | Some x \<Rightarrow> Some x)\<rparr>)))))"

subsection \<open>GET /videos\<close>

definition get_videos :: "MemStorage \<Rightarrow> string option \<Rightarrow> ustring option \<Rightarrow> response" where
  \<comment> \<open>the query parameters \<open>category\<close> and \<open>search\<close>, \<open>None\<close> when absent\<close>
  "get_videos st categoryParam searchParam =
     (let vs =
        (case nonEmpty searchParam of
           Some q \<Rightarrow> searchVideos st q
         | None \<Rightarrow>
             (case nonEmpty categoryParam of
                Some c \<Rightarrow> getVideosByCategory st c
              | None \<Rightarrow> getAllVideos st))
      in json 200 (VideoListJson vs))"

subsection \<open>DELETE /videos/:id\<close>

definition unlink_if_exists :: "disk \<Rightarrow> string option \<Rightarrow> disk" where
  \<comment> \<open>\<open>if (fs.existsSync(p)) fs.unlinkSync(p)\<close>\<close>
  "unlink_if_exists d p =
     (case existing_file d p of
        None \<Rightarrow> d
      | Some _ \<Rightarrow> (case p of None \<Rightarrow> d | Some q \<Rightarrow> d(q := None)))"

definition delete_videos_id :: "server \<Rightarrow> string \<Rightarrow> response \<times> server" where
  \<comment> \<open>\<open>parseInt\<close> of the path parameter may be \<open>NaN\<close>, which is no key of the map\<close>
  "delete_videos_id srv idParam =
     (case session srv of
        None \<Rightarrow> (json 401 (Message ''Unauthorized''), srv)
      | Some su \<Rightarrow>
          (case parseInt idParam None of
             None \<Rightarrow> (json 404 (Message ''Video not found''), srv)
           | Some i \<Rightarrow>
               (case getVideo (storage srv) i of
                  None \<Rightarrow> (json 404 (Message ''Video not found''), srv)
                | Some video \<Rightarrow>
                    if \<not> isAdmin su \<and> uploaderId video \<noteq> uid su
                    then (json 403 (Message ''Not authorized to delete this video''), srv)
                    else
                      (json 200 (Message ''Video deleted successfully''),
                       srv\<lparr>storage := snd (deleteVideo (storage srv) i),
                           disk := unlink_if_exists (disk srv) (filePath video)\<rparr>))))"

subsection \<open>GET /stream/:id\<close>

definition num_sub :: "int option \<Rightarrow> int option \<Rightarrow> int option" where
  \<comment> \<open>arithmetic on numbers that may be \<open>NaN\<close>\<close>
  "num_sub a b = (case (a, b) of (Some x, Some y) \<Rightarrow> Some (x - y) | _ \<Rightarrow> None)"

definition num_add :: "int option \<Rightarrow> int option \<Rightarrow> int option" where
  "num_add a b = (case (a, b) of (Some x, Some y) \<Rightarrow> Some (x + y) | _ \<Rightarrow> None)"

definition showNum :: "int option \<Rightarrow> string" where
  "showNum a = (case a of None \<Rightarrow> ''NaN'' | Some x \<Rightarrow> showInt x)"

definition get_stream_id :: "MemStorage \<Rightarrow> disk \<Rightarrow> string \<Rightarrow> string option \<Rightarrow> response" where
  \<comment> \<open>the path parameter \<open>id\<close> and the \<open>Range\<close> request header, \<open>None\<close> when absent\<close>
  "get_stream_id st d idParam rangeHeader =
     (case parseInt idParam None of
        None \<Rightarrow> json 404 (Message ''Video not found'')
      | Some i \<Rightarrow>
          (case getVideo st i of
             None \<Rightarrow> json 404 (Message ''Video not found'')
           | Some video \<Rightarrow>
               (case existing_file d (filePath video) of
                  None \<Rightarrow> json 404 (Message ''Video not found'')
                | Some content \<Rightarrow>
                    (let fileSize = int (length content)
                     in case nonEmpty rangeHeader of
                          Some rangeValue \<Rightarrow>
                            (let parts = split_on CHR ''-'' (replace_first ''bytes='' [] rangeValue);
                                 start = (case part parts 0 of
                                            None \<Rightarrow> None
                                          | Some p \<Rightarrow> parseInt p (Some 10));
                                 end = (case nonEmpty (part parts 1) of
                                          Some p \<Rightarrow> parseInt p (Some 10)
                                        | None \<Rightarrow> Some (fileSize - 1));
                                 chunksize = num_add (num_sub end start) (Some 1)
                             in case createReadStream content start end of
                                  Inl err \<Rightarrow> json 500 (Message ''Error streaming video'')
                                | Inr file \<Rightarrow>
                                    \<lparr>status = 206,
                                     headers =
                                       [(''Content-Range'',
                                         ''bytes '' @ showNum start @ ''-'' @ showNum end
                                           @ ''/'' @ showInt fileSize),
                                        (''Accept-Ranges'', ''bytes''),
                                        (''Content-Length'', showNum chunksize),
                                        (''Content-Type'', ''video/mp4'')],
                                     body = FileStream file\<rparr>)
                        | None \<Rightarrow>
                            \<lparr>status = 200,
                             headers =
                               [(''Content-Length'', showInt fileSize),
                                (''Content-Type'', ''video/mp4'')],
                             body = FileStream content\<rparr>))))"

subsection \<open>POST /videos\<close>

text \<open>
  The multipart request: at most one file, in the field \<open>file\<close>, and the form field
  \<open>videoData\<close>, which is either no JSON text or a JSON value whose fields the insert
  schema reads (\<open>fileName\<close>, \<open>filePath\<close> and \<open>uploaderId\<close> of the client are
  overwritten by the handler before validation and are left out).
\<close>

record uploadedFile =
  originalname :: string
  mimetype :: string
  file_bytes :: "byte list"

record videoDataFields =
  vd_title :: "ustring jsval"
  vd_description :: "ustring jsval"
  vd_embedUrl :: "string jsval"
  vd_isEmbedded :: "bool jsval"
  vd_thumbnailPath :: "string jsval"
  vd_category :: "string jsval"
  vd_duration :: "int jsval"

datatype videoDataText = NotJson | JsonObject videoDataFields

record uploadRequest =
  req_file :: "uploadedFile option"
  req_videoData :: videoDataText

definition fileFilter :: "uploadedFile \<Rightarrow> bool" where
  \<comment> \<open>\<open>True\<close> is \<open>cb(null, true)\<close>, \<open>False\<close> is \<open>cb(new Error(...))\<close>\<close>
  "fileFilter f = prefix ''video/'' (mimetype f)"

definition fileSizeLimit :: nat where
  "fileSizeLimit = 500 * 1024 * 1024"

definition uploadsDir :: string where
  "uploadsDir = ''uploads''"

definition upload_single ::
  "disk \<Rightarrow> string \<Rightarrow> uploadedFile option \<Rightarrow> string + (disk \<times> (uploadedFile \<times> string) option)" where
  \<comment> \<open>\<open>upload.single('file')\<close>; the second argument is the value of \<open>uuidv4()\<close>.
      A file that the filter refuses or that reaches the size limit is not kept on disk.\<close>
  "upload_single d uuid fo =
     (case fo of
        None \<Rightarrow> Inr (d, None)
      | Some f \<Rightarrow>
          if \<not> fileFilter f then Inl ''Only video files are allowed''
          else if fileSizeLimit \<le> length (file_bytes f) then Inl ''File too large''
          else
            (let path = uploadsDir @ ''/'' @ uuid @ ''-'' @ originalname f
             in Inr (d(path \<mapsto> file_bytes f), Some (f, path))))"

definition optional_nullable :: "'a jsval \<Rightarrow> 'a option option" where
  \<comment> \<open>a nullable column in the insert schema: the outer \<open>None\<close> is the \<open>ZodError\<close>\<close>
  "optional_nullable x =
     (case x of Undefined \<Rightarrow> Some None | Null \<Rightarrow> Some None | WrongType \<Rightarrow> None
      | Val v \<Rightarrow> Some (Some v))"

definition insertVideoSchema ::
  "videoDataFields \<Rightarrow> string \<Rightarrow> string \<Rightarrow> int \<Rightarrow> insertVideo option" where
  \<comment> \<open>\<open>insertVideoSchema.parse({...videoData, fileName, filePath, uploaderId})\<close>\<close>
  "insertVideoSchema vd fname fpath uploader =
     (case (vd_title vd, optional_nullable (vd_description vd),
            optional_nullable (vd_embedUrl vd), optional_nullable (vd_isEmbedded vd),
            optional_nullable (vd_thumbnailPath vd), optional_nullable (vd_category vd),
            optional_nullable (vd_duration vd)) of
        (Val t, Some de, Some em, Some ie, Some th, Some ca, Some du) \<Rightarrow>
          Some \<lparr>iv_title = t, iv_description = de, iv_fileName = Some fname,
                iv_filePath = Some fpath, iv_embedUrl = em, iv_isEmbedded = ie,
                iv_thumbnailPath = th, iv_category = ca, iv_uploaderId = uploader,
                iv_duration = du\<rparr>
      | _ \<Rightarrow> None)"

definition post_videos :: "server \<Rightarrow> string \<Rightarrow> int \<Rightarrow> uploadRequest \<Rightarrow> outcome \<times> server" where
  \<comment> \<open>the second and third arguments are the values of \<open>uuidv4()\<close> and of the clock\<close>
  "post_videos srv uuid now req =
     (case session srv of
        None \<Rightarrow> (Respond (json 401 (Message ''Unauthorized'')), srv)
      | Some su \<Rightarrow>
          (case upload_single (disk srv) uuid (req_file req) of
             Inl err \<Rightarrow> (NextError err, srv)
           | Inr (d, stored) \<Rightarrow>
               (let srv1 = srv\<lparr>disk := d\<rparr>
                in case stored of
                     None \<Rightarrow> (Respond (json 400 (Message ''No video file uploaded'')), srv1)
                   | Some (f, path) \<Rightarrow>
                       (case req_videoData req of
                          NotJson \<Rightarrow>
                            (Respond (json 500 (Message ''Error uploading video'')), srv1)
                        | JsonObject vd \<Rightarrow>
                            (case insertVideoSchema vd (originalname f) path (uid su) of
                               None \<Rightarrow> (Respond (json 400 ValidationErrors), srv1)
                             | Some validated \<Rightarrow>
                                 (case createVideo (storage srv1) validated now of
                                    (v, st) \<Rightarrow>
                                      (Respond (json 201 (VideoJson v)),
                                       srv1\<lparr>storage := st\<rparr>)))))))"

subsection \<open>PUT /videos/:id\<close>

definition put_videos_id :: "server \<Rightarrow> string \<Rightarrow> videoUpdates \<Rightarrow> response \<times> server" where
  \<comment> \<open>the third argument is \<open>req.body\<close>, handed to \<open>updateVideo\<close> as it is;
      \<open>res.json(undefined)\<close> is \<open>NoValue\<close>\<close>
  "put_videos_id srv idParam reqBody =
     (case session srv of
        None \<Rightarrow> (json 401 (Message ''Unauthorized''), srv)
      | Some su \<Rightarrow>
          (case parseInt idParam None of
             None \<Rightarrow> (json 404 (Message ''Video not found''), srv)
           | Some i \<Rightarrow>
               (case getVideo (storage srv) i of
                  None \<Rightarrow> (json 404 (Message ''Video not found''), srv)
                | Some video \<Rightarrow>
                    if \<not> isAdmin su \<and> uploaderId video \<noteq> uid su
                    then (json 403 (Message ''Not authorized to update this video''), srv)
                    else
                      (case updateVideo (storage srv) i reqBody of
                         (updatedVideo, st) \<Rightarrow>
                           (json 200 (case updatedVideo of
                                        None \<Rightarrow> NoValue
                                      | Some v \<Rightarrow> VideoJson v),
                            srv\<lparr>storage := st\<rparr>)))))"

subsection \<open>The routes that are registered\<close>

text \<open>
  The method and path pattern of every \<open>apiRouter\<close> registration, in the order of the
  source; the router is mounted at \<open>/api\<close>. A request path is its list of segments
  after \<open>/api\<close>. With the router's default options a literal segment matches without
  regard to the case of ASCII letters and a parameter matches any non-empty segment.
\<close>

datatype http_method = GET | POST | PUT | DELETE

datatype segment = Lit string | Param string

definition apiRoutes :: "(http_method \<times> segment list) list" where
  "apiRoutes =
     [(POST, [Lit ''auth'', Lit ''login'']),
      (POST, [Lit ''auth'', Lit ''logout'']),
      (GET, [Lit ''auth'', Lit ''me'']),
      (POST, [Lit ''auth'', Lit ''change-password'']),
      (GET, [Lit ''videos'']),
      (GET, [Lit ''videos'', Param ''id'']),
      (POST, [Lit ''videos'']),
      (PUT, [Lit ''videos'', Param ''id'']),
      (DELETE, [Lit ''videos'', Param ''id'']),
      (POST, [Lit ''videos'', Param ''id'', Lit ''views'']),
      (GET, [Lit ''stream'', Param ''id'']),
      (GET, [Lit ''categories'']),
      (GET, [Lit ''admin'', Lit ''videos'']),
      (GET, [Lit ''admin'', Lit ''users''])]"

definition asciiLower :: "char \<Rightarrow> char" where
  "asciiLower c =
     (let n = (of_char c :: nat) in if 65 \<le> n \<and> n \<le> 90 then char_of (n + 32) else c)"

fun segment_matches :: "segment \<Rightarrow> string \<Rightarrow> bool" where
  "segment_matches (Lit l) x = (map asciiLower l = map asciiLower x)"
| "segment_matches (Param n) x = (x \<noteq> [])"

definition route_matches :: "http_method \<Rightarrow> string list \<Rightarrow> http_method \<times> segment list \<Rightarrow> bool" where
  "route_matches m path r = (fst r = m \<and> list_all2 segment_matches (snd r) path)"

definition find_route :: "http_method \<Rightarrow> string list \<Rightarrow> (http_method \<times> segment list) option" where
  \<comment> \<open>the first registration that takes the request; \<open>None\<close> when the router passes it on\<close>
  "find_route m path = find (route_matches m path) apiRoutes"

section \<open>Predicates and sample states used in the statements\<close>

definition decimal :: "string \<Rightarrow> bool" where
  \<comment> \<open>only the digits \<open>0\<close> to \<open>9\<close>\<close>
  "decimal ds = (\<forall>c \<in> set ds. 48 \<le> (of_char c :: nat) \<and> (of_char c :: nat) \<le> 57)"

definition stored_file :: "MemStorage \<Rightarrow> disk \<Rightarrow> string \<Rightarrow> byte list option" where
  \<comment> \<open>the content of the backing file of the video that a path parameter names,
      \<open>None\<close> when the record or the file is absent\<close>
  "stored_file st d idParam =
     (case parseInt idParam None of
        None \<Rightarrow> None
      | Some i \<Rightarrow>
          (case getVideo st i of
             None \<Rightarrow> None
           | Some v \<Rightarrow> existing_file d (filePath v)))"

definition alice :: user where
  "alice = \<lparr>uid = 2, username = ''alice'', password = ''wonderland'', isAdmin = False\<rparr>"

definition bob :: user where
  "bob = \<lparr>uid = 3, username = ''bob'', password = ''builder1'', isAdmin = False\<rparr>"

definition clip :: video where
  "clip = \<lparr>vid = 1, title = text_of ''Cat Tricks'',
           description = Some (text_of ''a tabby jumps''),
           fileName = Some ''cat.mp4'', filePath = Some ''uploads/u1-cat.mp4'',
           embedUrl = None, isEmbedded = None, thumbnailPath = None,
           category = Some ''Entertainment'', uploaderId = 2, views = 4, uploadDate = 1000,
           duration = None\<rparr>"

definition talk :: video where
  "talk = \<lparr>vid = 2, title = text_of ''Type theory'', description = None,
           fileName = Some ''talk.mp4'', filePath = Some ''uploads/u2-talk.mp4'',
           embedUrl = None, isEmbedded = None, thumbnailPath = None,
           category = Some ''Education'', uploaderId = 3, views = 0, uploadDate = 2000,
           duration = None\<rparr>"

definition sample_store :: MemStorage where
  "sample_store =
     MemStorage_new\<lparr>users := users MemStorage_new @ [(2, alice), (3, bob)],
                     nextUserId := 4,
                     videos := [(1, clip), (2, talk)],
                     nextVideoId := 3\<rparr>"

definition sample_disk :: disk where
  "sample_disk =
     [''uploads/u1-cat.mp4'' \<mapsto> replicate 1000 0,
      ''uploads/u2-talk.mp4'' \<mapsto> [1, 2, 3, 4, 5, 6, 7, 8]]"

definition sample_server :: "user \<Rightarrow> server" where
  \<comment> \<open>the sample store and disk, with the given user logged in\<close>
  "sample_server u = \<lparr>storage = sample_store, disk = sample_disk, session = Some u\<rparr>"

definition sample_insert :: insertVideo where
  "sample_insert =
     \<lparr>iv_title = text_of ''Harbour at dawn'', iv_description = None,
      iv_fileName = Some ''harbour.mp4'',
      iv_filePath = Some ''uploads/u3-harbour.mp4'', iv_embedUrl = None, iv_isEmbedded = None,
      iv_thumbnailPath = None, iv_category = Some ''Travel'', iv_uploaderId = 1,
      iv_duration = None\<rparr>"

definition sample_updates :: videoUpdates where
  "sample_updates =
     \<lparr>up_id = None, up_title = Some (text_of ''Cat tricks, part 1''),
      up_description = Some None, up_fileName = None, up_filePath = None, up_embedUrl = None,
      up_isEmbedded = None, up_thumbnailPath = None, up_category = None,
      up_uploaderId = None, up_views = None, up_uploadDate = None, up_duration = None\<rparr>"

definition views_reset :: videoUpdates where
  \<comment> \<open>the request body \<open>{"views": 0}\<close>\<close>
  "views_reset =
     \<lparr>up_id = None, up_title = None, up_description = None, up_fileName = None,
      up_filePath = None, up_embedUrl = None, up_isEmbedded = None, up_thumbnailPath = None,
      up_category = None, up_uploaderId = None, up_views = Some 0, up_uploadDate = None,
      up_duration = None\<rparr>"

definition saturated_store :: MemStorage where
  \<comment> \<open>the sample store with the first video's counter at \<open>2 ^ 53\<close>\<close>
  "saturated_store = sample_store\<lparr>videos := [(1, clip\<lparr>views := 2 ^ 53\<rparr>), (2, talk)]\<rparr>"





definition wrong_password_body :: passwordChangeBody where
  "wrong_password_body =
     \<lparr>currentPassword = Val ''looking-glass'', newPassword = Val ''rabbit-hole'',
      confirmPassword = Val ''rabbit-hole''\<rparr>"

definition text_upload :: uploadRequest where
  "text_upload =
     \<lparr>req_file = Some \<lparr>originalname = ''notes.txt'', mimetype = ''text/plain'',
                       file_bytes = [104, 105]\<rparr>,
      req_videoData = JsonObject \<lparr>vd_title = Val (text_of ''Notes''), vd_description = Undefined,
                         vd_embedUrl = Undefined, vd_isEmbedded = Undefined,
                         vd_thumbnailPath = Undefined, vd_category = Undefined,
                         vd_duration = Undefined\<rparr>\<rparr>"

definition embed_request :: uploadRequest where
  \<comment> \<open>the metadata of an embed, as the upload dialog sends it, and no file\<close>
  "embed_request =
     \<lparr>req_file = None,
      req_videoData = JsonObject \<lparr>vd_title = Val (text_of ''Lecture 1''),
                         vd_description = Undefined,
                         vd_embedUrl = Val ''https://videos.example/embed/42'',
                         vd_isEmbedded = Val True, vd_thumbnailPath = Undefined,
                         vd_category = Val ''Education'', vd_duration = Undefined\<rparr>\<rparr>"

definition byte_slice :: "byte list \<Rightarrow> int \<Rightarrow> int \<Rightarrow> byte list" where
  \<comment> \<open>the bytes of a file at the offsets \<open>s\<close> to \<open>e\<close> inclusive, as far as the file has them\<close>
  "byte_slice content s e = map (\<lambda>k. content ! k) [nat s ..< min (nat e + 1) (length content)]"

section \<open>Listing by category\<close>

text \<open>
  C3. For every store state, \<open>getVideosByCategory("All")\<close> returns the same list as
  \<open>getAllVideos()\<close>: every stored video, once, ordered by upload date descending; the
  category test is never applied.
\<close>

theorem getVideosByCategory_All:
  "getVideosByCategory s ''All'' = getAllVideos s
   \<and> mset (getVideosByCategory s ''All'') = mset (map snd (videos s))
   \<and> sorted_wrt (\<lambda>a b. uploadDate a \<ge> uploadDate b) (getVideosByCategory s ''All'')"
proof -
  have "sorted (map (\<lambda>v. - uploadDate v) (getAllVideos s))"
    by (simp add: getAllVideos_def sortNewestFirst_def)
  then have "sorted_wrt (\<lambda>a b. uploadDate a \<ge> uploadDate b) (getAllVideos s)"
    by (simp add: sorted_wrt_map)
  then show ?thesis
    by (simp add: getVideosByCategory_def getAllVideos_def sortNewestFirst_def)
qed

section \<open>Free-text search\<close>






















section \<open>The view counter\<close>

lemma plus_one_exact: "- (2 ^ 53) \<le> x \<Longrightarrow> x < 2 ^ 53 \<Longrightarrow> plus_one x = x + 1"
  by (simp add: plus_one_def)

lemma plus_one_ge: "x \<le> plus_one x"
  by (simp add: plus_one_def)

lemma getVideo_incrementViews:
  "getVideo (snd (incrementViews s i)) j
   = (if j = i then map_option (\<lambda>v. v\<lparr>views := plus_one (views v)\<rparr>) (getVideo s i)
      else getVideo s j)"
  by (simp add: incrementViews_def getVideo_def Let_def update_conv' split: option.splits)

lemma views_applyUpdates: "views (applyUpdates v u) = override (views v) (up_views u)"
  by (simp add: applyUpdates_def)

lemma getVideo_updateVideo:
  "getVideo (snd (updateVideo s k u)) j
   = (if j = k then map_option (\<lambda>v. applyUpdates v u) (getVideo s k) else getVideo s j)"
  by (simp add: updateVideo_def getVideo_def Let_def update_conv' split: option.splits)

lemma getVideo_deleteVideo:
  "getVideo (snd (deleteVideo s k)) j = (if j = k then None else getVideo s j)"
  by (simp add: deleteVideo_def getVideo_def delete_conv')

lemma getVideo_createVideo:
  "getVideo (snd (createVideo s iv now)) j
   = (if j = nextVideoId s then Some (fst (createVideo s iv now)) else getVideo s j)"
  by (simp add: createVideo_def getVideo_def Let_def update_conv')

lemma incrementViewsTimes_Suc:
  "incrementViewsTimes (Suc N) s i = snd (incrementViews (incrementViewsTimes N s i) i)"
  by (simp add: incrementViewsTimes_def)

lemma incrementViewsTimes_adds:
  "getVideo s i = Some v \<Longrightarrow> - (2 ^ 53) \<le> views v \<Longrightarrow> views v + int N \<le> 2 ^ 53
   \<Longrightarrow> getVideo (incrementViewsTimes N s i) i = Some (v\<lparr>views := views v + int N\<rparr>)"
proof (induction N)
  case 0
  then show ?case by (simp add: incrementViewsTimes_def)
next
  case (Suc N)
  then have "getVideo (incrementViewsTimes N s i) i = Some (v\<lparr>views := views v + int N\<rparr>)"
    by simp
  moreover have "plus_one (views v + int N) = views v + int N + 1"
    using Suc.prems by (intro plus_one_exact) simp_all
  ultimately show ?case
    by (simp add: incrementViewsTimes_Suc getVideo_incrementViews add.assoc)
qed

lemma views_not_decreased:
  assumes "getVideo s j = Some w"
    and "getVideo (apply_op s op) j = Some w'"
    and "\<not> patches_views op"
    and "getVideo s (nextVideoId s) = None"
  shows "views w \<le> views w'"
proof (cases op)
  case (CreateUser iu)
  with assms show ?thesis
    by (simp add: getVideo_def createUser_def Let_def)
next
  case (UpdateUserPassword k p)
  with assms show ?thesis
    by (simp add: getVideo_def updateUserPassword_def Let_def split: option.splits)
next
  case (CreateVideo iv now)
  with assms show ?thesis
    by (auto simp: getVideo_createVideo split: if_splits)
next
  case (UpdateVideo k u)
  with assms(3) have "up_views u = None"
    by (simp add: patches_views_def)
  then have "views (applyUpdates x u) = views x" for x
    by (simp add: views_applyUpdates override_def)
  with assms UpdateVideo show ?thesis
    by (auto simp: getVideo_updateVideo split: if_splits)
next
  case (DeleteVideo k)
  with assms show ?thesis
    by (auto simp: getVideo_deleteVideo split: if_splits)
next
  case (IncrementViews k)
  with assms show ?thesis
    by (auto simp: getVideo_incrementViews plus_one_ge split: if_splits)
next
  case (CreateCategory c)
  with assms show ?thesis
    by (simp add: getVideo_def createCategory_def Let_def)
qed

text \<open>
  C5 (as amended). For every video id present in the store whose view counter \<open>v\<close>
  satisfies \<open>-2^53 \<le> v\<close> and \<open>v + N \<le> 2^53\<close>, \<open>N\<close> calls of \<open>incrementViews(id)\<close> add
  exactly \<open>N\<close> to that counter (and change nothing else of the record). A store
  operation does not decrease the counter of a video that it leaves in the store,
  when the operation is not an \<open>updateVideo\<close> whose patch has a \<open>views\<close> key and the
  next video id is not in use.
\<close>

theorem incrementViews_exact_and_monotone:
  "(getVideo s i = Some v \<and> - (2 ^ 53) \<le> views v \<and> views v + int N \<le> 2 ^ 53
      \<longrightarrow> getVideo (incrementViewsTimes N s i) i = Some (v\<lparr>views := views v + int N\<rparr>))
   \<and> (getVideo s j = Some w \<and> getVideo (apply_op s op) j = Some w'
        \<and> \<not> patches_views op \<and> getVideo s (nextVideoId s) = None
      \<longrightarrow> views w \<le> views w')"
  using incrementViewsTimes_adds [of s i v N] views_not_decreased [of s j w op w']
  by blast

section \<open>Password change\<close>

text \<open>
  C7. For every authenticated password-change request whose \<open>currentPassword\<close> is not
  the stored password of the session user, the endpoint answers 400 and the store
  (hence the stored password and the rest of the user record), the disk and the
  session are unchanged.
\<close>

theorem change_password_wrong_current:
  assumes "session srv = Some su"
    and "getUser (storage srv) (uid su) = Some u"
    and "currentPassword b \<noteq> Val (password u)"
  shows "status (fst (post_auth_change_password srv b)) = 400
         \<and> snd (post_auth_change_password srv b) = srv"
proof (cases "passwordChangeSchema b")
  case None
  with assms show ?thesis
    by (simp add: post_auth_change_password_def json_def)
next
  case (Some t)
  obtain c n k where t: "t = (c, n, k)" by (cases t)
  from Some t have "currentPassword b = Val c"
    by (auto simp: passwordChangeSchema_def split: jsval.splits if_splits)
  with assms(3) have "password u \<noteq> c" by auto
  with assms Some t show ?thesis
    by (simp add: post_auth_change_password_def json_def Let_def)
qed

section \<open>Listing videos\<close>

text \<open>
  C10. For every request to GET /api/videos in which both \<open>search\<close> and \<open>category\<close> are
  present and non-empty, the response is the result of \<open>searchVideos(search)\<close>; the
  category does not enter (the response is the one for the same search without a
  category).
\<close>

theorem get_videos_search_precedence:
  assumes "q \<noteq> []" and "c \<noteq> []"
  shows "get_videos st (Some c) (Some q) = json 200 (VideoListJson (searchVideos st q))
         \<and> get_videos st (Some c) (Some q) = get_videos st None (Some q)"
  using assms by (simp add: get_videos_def nonEmpty_def)

section \<open>Deleting a video\<close>

text \<open>
  C8. For every DELETE /api/videos/:id request by an authenticated user who is neither
  the uploader of the video nor an admin, the endpoint answers 403 and the store and
  the disk are unchanged.
\<close>

theorem delete_not_owner_forbidden:
  assumes "session srv = Some su"
    and "parseInt idParam None = Some i"
    and "getVideo (storage srv) i = Some v"
    and "\<not> isAdmin su"
    and "uploaderId v \<noteq> uid su"
  shows "delete_videos_id srv idParam
         = (json 403 (Message ''Not authorized to delete this video''), srv)"
  using assms by (simp add: delete_videos_id_def)

section \<open>Uploading a video\<close>

text \<open>
  C9. For every multipart upload whose file has a MIME type that does not start with
  \<open>video/\<close>, the request is refused before the route handler runs (by the session
  check, or else by the file filter of the upload middleware): no video record is
  created, and store and disk are unchanged.
\<close>

theorem upload_non_video_rejected:
  assumes "req_file req = Some f"
    and "\<not> prefix ''video/'' (mimetype f)"
  shows "snd (post_videos srv uuid now req) = srv
         \<and> fst (post_videos srv uuid now req)
           = (case session srv of
                None \<Rightarrow> Respond (json 401 (Message ''Unauthorized''))
              | Some u \<Rightarrow> NextError ''Only video files are allowed'')"
  using assms
  by (simp add: post_videos_def upload_single_def fileFilter_def split: option.splits)

section \<open>Evaluation on the sample states\<close>

lemma ulp_small: "a < 2 ^ 53 \<Longrightarrow> ulp a = 1"
  by (simp add: ulp.simps)

lemma nearest_double_exact: "\<bar>n\<bar> \<le> 2 ^ 53 \<Longrightarrow> nearest_double n = n"
proof (cases "\<bar>n\<bar> < 2 ^ 53")
  case True
  then have "ulp (nat \<bar>n\<bar>) = 1"
    by (intro ulp_small) simp
  then show ?thesis
    by (simp add: nearest_double_def)
next
  case False
  assume "\<bar>n\<bar> \<le> 2 ^ 53"
  with False have n: "n = 2 ^ 53 \<or> n = - (2 ^ 53)"
    by linarith
  then have "nat \<bar>n\<bar> = 2 ^ 53"
    by auto
  then have "ulp (nat \<bar>n\<bar>) = 2"
    by (simp add: ulp.simps)
  with n show ?thesis
    by (auto simp: nearest_double_def)
qed

lemma nd_samples:
  "nearest_double 9007199254740993 = 9007199254740992"
  "nearest_double 9007199254740995 = 9007199254740996"
  "nearest_double (- 9007199254740993) = - 9007199254740992"
  "nearest_double 18014398509481983 = 18014398509481984"
  "nearest_double 18014398509481990 = 18014398509481992"
  "nearest_double 18014398509481986 = 18014398509481984"
  by (simp_all add: nearest_double_def ulp.simps)

lemma parseInt_1: "parseInt ''1'' None = Some 1"
  by (simp add: parseInt_def isWhiteSpace_def digitValue_def digitsValue_def
      nearest_double_exact)

lemma parseInt_big: "parseInt ''9007199254740993'' (Some 10) = Some 9007199254740992"
  by (simp add: parseInt_def isWhiteSpace_def digitValue_def digitsValue_def nd_samples)

lemma sample_getVideo_1: "getVideo sample_store 1 = Some clip"
  by (simp add: getVideo_def sample_store_def)

lemma plus_one_small:
  "plus_one 1 = 2" "plus_one 2 = 3" "plus_one 3 = 4" "plus_one 4 = 5"
  "plus_one 5 = 6" "plus_one 6 = 7" "plus_one 7 = 8"
  by (simp_all add: plus_one_def)

lemma new_store:
  "MemStorage_new =
     \<lparr>users = [(1, \<lparr>uid = 1, username = ''admin'', password = ''admin123'',
                     isAdmin = True\<rparr>)],
      videos = [],
      categories = [(1, \<lparr>cid = 1, name = ''All''\<rparr>), (2, \<lparr>cid = 2, name = ''Travel''\<rparr>),
                    (3, \<lparr>cid = 3, name = ''Sports''\<rparr>), (4, \<lparr>cid = 4, name = ''Education''\<rparr>),
                    (5, \<lparr>cid = 5, name = ''Technology''\<rparr>),
                    (6, \<lparr>cid = 6, name = ''Entertainment''\<rparr>),
                    (7, \<lparr>cid = 7, name = ''Music''\<rparr>)],
      nextUserId = 2, nextVideoId = 1, nextCategoryId = 8\<rparr>"
  by (simp add: MemStorage_new_def DEFAULT_CATEGORIES_def createUser_def createCategory_def
      Let_def plus_one_small)

lemma sample_getUser_2: "getUser sample_store 2 = Some alice"
  by (simp add: getUser_def sample_store_def new_store)

lemma lower_samples:
  "toLowerCase (text_of ''Cat Tricks'') = text_of ''cat tricks''"
  "toLowerCase (text_of ''a tabby jumps'') = text_of ''a tabby jumps''"
  "toLowerCase (text_of ''Type theory'') = text_of ''type theory''"
  "toLowerCase (text_of ''CAT'') = text_of ''cat''"
  "toLowerCase (text_of ''t'') = text_of ''t''"
  "toLowerCase (text_of ''dog'') = text_of ''dog''"
  by (simp_all add: toLowerCase_def text_of_def lowerUnit_def)

lemma sample_listings:
  "getAllVideos sample_store = [talk, clip]"
  "getVideosByCategory sample_store ''Entertainment'' = [clip]"
  "searchVideos sample_store (text_of ''CAT'') = [clip]"
  "searchVideos sample_store (text_of ''t'') = [talk, clip]"
  "searchVideos sample_store (text_of ''dog'') = []"
  by (simp_all add: getAllVideos_def getVideosByCategory_def searchVideos_def sample_store_def
      searchMatch_def clip_def talk_def sortNewestFirst_def lower_samples Let_def)
    (simp_all add: text_of_def)

lemma post_videos_requires_file:
  "session srv = Some su \<Longrightarrow> req_file req = None
   \<Longrightarrow> post_videos srv uuid now req
       = (Respond (json 400 (Message ''No video file uploaded'')), srv)"
  by (simp add: post_videos_def upload_single_def)

theorem change_password_wrong_current_witness:
  "status (fst (post_auth_change_password (sample_server alice) wrong_password_body)) = 400
   \<and> snd (post_auth_change_password (sample_server alice) wrong_password_body)
     = sample_server alice"
proof -
  have 1: "session (sample_server alice) = Some alice"
    by (simp add: sample_server_def)
  have 2: "getUser (storage (sample_server alice)) (uid alice) = Some alice"
    using sample_getUser_2 by (simp add: sample_server_def alice_def)
  have 3: "currentPassword wrong_password_body \<noteq> Val (password alice)"
    by (simp add: wrong_password_body_def alice_def)
  show ?thesis
    using change_password_wrong_current [OF 1 2 3] .
qed

theorem get_videos_search_precedence_witness:
  "get_videos sample_store (Some ''Music'') (Some (text_of ''cat''))
     = json 200 (VideoListJson (searchVideos sample_store (text_of ''cat'')))
   \<and> get_videos sample_store (Some ''Music'') (Some (text_of ''cat''))
     = get_videos sample_store None (Some (text_of ''cat''))"
proof -
  have 1: "text_of ''cat'' \<noteq> []" by (simp add: text_of_def)
  have 2: "''Music'' \<noteq> []" by simp
  show ?thesis
    using get_videos_search_precedence [OF 1 2] .
qed

theorem delete_not_owner_forbidden_witness:
  "delete_videos_id (sample_server bob) ''1''
   = (json 403 (Message ''Not authorized to delete this video''), sample_server bob)"
proof -
  have 1: "session (sample_server bob) = Some bob"
    by (simp add: sample_server_def)
  have 2: "getVideo (storage (sample_server bob)) 1 = Some clip"
    using sample_getVideo_1 by (simp add: sample_server_def)
  have 3: "\<not> isAdmin bob"
    by (simp add: bob_def)
  have 4: "uploaderId clip \<noteq> uid bob"
    by (simp add: clip_def bob_def)
  show ?thesis
    using delete_not_owner_forbidden [OF 1 parseInt_1 2 3 4] .
qed

theorem upload_non_video_rejected_witness:
  "post_videos (sample_server alice) ''u9'' 3000 text_upload
   = (NextError ''Only video files are allowed'', sample_server alice)"
proof -
  let ?f = "\<lparr>originalname = ''notes.txt'', mimetype = ''text/plain'',
             file_bytes = [104, 105 :: byte]\<rparr>"
  have 1: "req_file text_upload = Some ?f"
    by (simp add: text_upload_def)
  have 2: "\<not> prefix ''video/'' (mimetype ?f)"
    by simp
  have "session (sample_server alice) = Some alice"
    by (simp add: sample_server_def)
  then show ?thesis
    using upload_non_video_rejected [OF 1 2, of "sample_server alice" "''u9''" 3000]
    by (simp add: prod_eq_iff)
qed

theorem incrementViews_exact_and_monotone_witness:
  "getVideo (incrementViewsTimes 3 sample_store 1) 1 = Some (clip\<lparr>views := 7\<rparr>)
   \<and> map_option views (getVideo sample_store 1) = Some 4
   \<and> map_option views (getVideo (apply_op sample_store (UpdateVideo 1 sample_updates)) 1)
     = Some 4"
proof -
  let ?w = "clip\<lparr>title := text_of ''Cat tricks, part 1'', description := None\<rparr>"
  have 1: "- (2 ^ 53) \<le> views clip \<and> views clip + int 3 \<le> 2 ^ 53"
    by (simp add: clip_def)
  have 2: "getVideo (apply_op sample_store (UpdateVideo 1 sample_updates)) 1 = Some ?w"
    by (simp add: updateVideo_def applyUpdates_def override_def getVideo_def sample_store_def
        sample_updates_def Let_def)
  have 3: "\<not> patches_views (UpdateVideo 1 sample_updates)"
    by (simp add: patches_views_def sample_updates_def)
  have 4: "getVideo sample_store (nextVideoId sample_store) = None"
    by (simp add: getVideo_def sample_store_def)
  have 5: "views clip = 4" "views ?w = 4"
    by (simp_all add: clip_def)
  show ?thesis
    using incrementViews_exact_and_monotone
      [of sample_store 1 clip 3 1 clip "UpdateVideo 1 sample_updates" ?w]
      sample_getVideo_1 1 2 3 4 5
    by simp
qed

lemma saturated_getVideo_1: "getVideo saturated_store 1 = Some (clip\<lparr>views := 2 ^ 53\<rparr>)"
  by (simp add: getVideo_def saturated_store_def)

theorem view_counter_counterexample:
  "map_option views (getVideo sample_store 1) = Some 4
   \<and> map_option views (getVideo (apply_op sample_store (UpdateVideo 1 views_reset)) 1) = Some 0
   \<and> fst (put_videos_id (sample_server alice) ''1'' views_reset)
     = json 200 (VideoJson (clip\<lparr>views := 0\<rparr>))
   \<and> map_option views
       (getVideo (storage (snd (put_videos_id (sample_server alice) ''1'' views_reset))) 1)
     = Some 0
   \<and> map_option views (getVideo saturated_store 1) = Some (2 ^ 53)
   \<and> map_option views (getVideo (incrementViewsTimes 1 saturated_store 1) 1) = Some (2 ^ 53)"
proof -
  have 1: "views clip = 4"
    by (simp add: clip_def)
  have 2: "updateVideo sample_store 1 views_reset
           = (Some (clip\<lparr>views := 0\<rparr>),
              sample_store\<lparr>videos := [(1, clip\<lparr>views := 0\<rparr>), (2, talk)]\<rparr>)"
    by (simp add: updateVideo_def applyUpdates_def override_def views_reset_def
        sample_store_def Let_def)
  have 3: "put_videos_id (sample_server alice) ''1'' views_reset
           = (json 200 (VideoJson (clip\<lparr>views := 0\<rparr>)),
              (sample_server alice)
                \<lparr>storage := sample_store\<lparr>videos := [(1, clip\<lparr>views := 0\<rparr>), (2, talk)]\<rparr>\<rparr>)"
    using sample_getVideo_1 2
    by (simp add: put_videos_id_def sample_server_def parseInt_1 alice_def clip_def)
  have 4: "getVideo (incrementViewsTimes 1 saturated_store 1) 1
           = Some (clip\<lparr>views := 2 ^ 53\<rparr>)"
    using saturated_getVideo_1
    by (simp add: incrementViewsTimes_def getVideo_incrementViews plus_one_def)
  show ?thesis
    using sample_getVideo_1 saturated_getVideo_1 1 2 3 4
    by (simp add: getVideo_def)
qed

section \<open>Streaming\<close>

lemma stored_file_Some_iff:
  "stored_file st d idParam = Some content
   \<longleftrightarrow> (\<exists>i v p. parseInt idParam None = Some i \<and> getVideo st i = Some v
                \<and> filePath v = Some p \<and> d p = Some content)"
  by (auto simp: stored_file_def existing_file_def split: option.splits)

lemma parseInt_2: "parseInt ''2'' None = Some 2"
  by (simp add: parseInt_def isWhiteSpace_def digitValue_def digitsValue_def
      nearest_double_exact)

lemma parseInt_7: "parseInt ''7'' None = Some 7"
  by (simp add: parseInt_def isWhiteSpace_def digitValue_def digitsValue_def
      nearest_double_exact)

lemma sample_stored_file_1: "stored_file sample_store sample_disk ''1'' = Some (replicate 1000 0)"
  by (simp add: stored_file_def parseInt_1 sample_getVideo_1 existing_file_def clip_def
      sample_disk_def)

lemma sample_stored_file_2:
  "stored_file sample_store sample_disk ''2'' = Some [1, 2, 3, 4, 5, 6, 7, 8]"
  by (simp add: stored_file_def parseInt_2 getVideo_def sample_store_def existing_file_def
      talk_def sample_disk_def)

lemma sample_stored_file_7: "stored_file sample_store sample_disk ''7'' = None"
  by (simp add: stored_file_def parseInt_7 getVideo_def sample_store_def)

text \<open>
  C6. For every request to GET /api/stream/:id without a Range header: if the video
  record and its backing file exist, the response has status 200, Content-Length equal
  to the file size, Content-Type \<open>video/mp4\<close> and the whole file as body. If the record
  or the file is absent, the response is 404 (with or without a Range header).
\<close>

theorem stream_without_range:
  "(stored_file st d idParam = Some content
      \<longrightarrow> get_stream_id st d idParam None
          = \<lparr>status = 200,
             headers = [(''Content-Length'', showInt (int (length content))),
                        (''Content-Type'', ''video/mp4'')],
             body = FileStream content\<rparr>)
   \<and> (stored_file st d idParam = None
      \<longrightarrow> get_stream_id st d idParam rangeHeader = json 404 (Message ''Video not found''))"
  by (auto simp: stored_file_def get_stream_id_def nonEmpty_def Let_def split: option.splits)

theorem stream_without_range_witness:
  "get_stream_id sample_store sample_disk ''2'' None
     = \<lparr>status = 200,
        headers = [(''Content-Length'', ''8''), (''Content-Type'', ''video/mp4'')],
        body = FileStream [1, 2, 3, 4, 5, 6, 7, 8]\<rparr>
   \<and> get_stream_id sample_store sample_disk ''7'' None = json 404 (Message ''Video not found'')"
proof -
  have 8: "showInt 8 = ''8''" by code_simp
  show ?thesis
    using stream_without_range [of sample_store sample_disk "''2''" "[1, 2, 3, 4, 5, 6, 7, 8]"]
      stream_without_range [of sample_store sample_disk "''7''" _ None]
      sample_stored_file_2 sample_stored_file_7 8
    by simp
qed

subsection \<open>Parsing the Range header\<close>

lemma replace_first_bytes: "replace_first ''bytes='' [] (''bytes='' @ rest) = rest"
  by simp

lemma split_on_single: "sep \<notin> set de \<Longrightarrow> split_on sep de = [de]"
  by (induction de) auto

lemma split_on_two:
  "sep \<notin> set ds \<Longrightarrow> sep \<notin> set de \<Longrightarrow> split_on sep (ds @ sep # de) = [ds, de]"
  by (induction ds) (auto simp: split_on_single)

lemma decimal_no_dash: "decimal ds \<Longrightarrow> CHR ''-'' \<notin> set ds"
  by (auto simp: decimal_def)

lemma parseInt_decimal:
  assumes "ds \<noteq> []" and "decimal ds" and "int (digitsValue 10 ds) \<le> 2 ^ 53"
  shows "parseInt ds (Some 10) = Some (int (digitsValue 10 ds))"
proof -
  obtain c cs where ds: "ds = c # cs"
    using assms(1) by (cases ds) auto
  have c: "48 \<le> (of_char c :: nat) \<and> (of_char c :: nat) \<le> 57"
    using assms(2) ds by (simp add: decimal_def)
  have ws: "\<not> isWhiteSpace c"
    using c by (auto simp: isWhiteSpace_def)
  have sg: "c \<noteq> CHR ''-'' \<and> c \<noteq> CHR ''+''"
    using c by auto
  have "\<forall>x \<in> set ds. digitValue x < 10"
    using assms(2) by (auto simp: decimal_def digitValue_def)
  then have tw: "takeWhile (\<lambda>x. digitValue x < 10) ds = ds"
    by (simp add: takeWhile_eq_all_conv)
  have "nearest_double (int (digitsValue 10 ds)) = int (digitsValue 10 ds)"
    using assms(3) by (intro nearest_double_exact) simp
  then show ?thesis
    using ws sg tw ds by (simp add: parseInt_def Let_def)
qed

lemma range_parts:
  assumes "decimal ds" and "decimal de"
  shows "split_on CHR ''-'' (replace_first ''bytes='' [] (''bytes='' @ ds @ ''-'' @ de))
         = [ds, de]"
proof -
  have "replace_first ''bytes='' [] (''bytes='' @ ds @ ''-'' @ de) = ds @ CHR ''-'' # de"
    using replace_first_bytes [of "ds @ ''-'' @ de"] by simp
  then show ?thesis
    using assms by (simp add: split_on_two decimal_no_dash)
qed

lemma range_response:
  assumes stored: "stored_file st d idParam = Some content"
    and parts: "split_on CHR ''-'' (replace_first ''bytes='' [] r) = [ds, de]"
    and r: "r \<noteq> []"
    and start: "parseInt ds (Some 10) = Some s"
    and last: "(if de = [] then Some (int (length content) - 1) else parseInt de (Some 10))
                = Some e"
  shows "get_stream_id st d idParam (Some r)
         = (case createReadStream content (Some s) (Some e) of
              Inl err \<Rightarrow> json 500 (Message ''Error streaming video'')
            | Inr bytes \<Rightarrow>
                \<lparr>status = 206,
                 headers =
                   [(''Content-Range'',
                     ''bytes '' @ showInt s @ ''-'' @ showInt e @ ''/''
                       @ showInt (int (length content))),
                    (''Accept-Ranges'', ''bytes''),
                    (''Content-Length'', showInt (e - s + 1)),
                    (''Content-Type'', ''video/mp4'')],
                 body = FileStream bytes\<rparr>)"
proof -
  from stored obtain i v where
    1: "parseInt idParam None = Some i" "getVideo st i = Some v"
       "existing_file d (filePath v) = Some content"
    by (auto simp: stored_file_def split: option.splits)
  have 2: "nonEmpty (Some r) = Some r"
    using r by (simp add: nonEmpty_def)
  have 3: "part [ds, de] 0 = Some ds" "part [ds, de] (Suc 0) = Some de"
    by (simp_all add: part_def)
  have 4: "(case nonEmpty (Some de) of
              Some p \<Rightarrow> parseInt p (Some 10)
            | None \<Rightarrow> Some (int (length content) - 1)) = Some e"
    using last by (simp add: nonEmpty_def split: if_splits)
  show ?thesis
    unfolding get_stream_id_def
    by (simp add: 1 2 3 4 parts start Let_def num_add_def num_sub_def showNum_def
        del: replace_first.simps split_on.simps split: sum.splits)
qed

lemma take_drop_nat: "take (b + 1 - a) (drop a xs) = map (\<lambda>k. xs ! k) [a ..< min (b + 1) (length xs)]"
proof (rule nth_equalityI)
  show "length (take (b + 1 - a) (drop a xs)) = length (map (\<lambda>k. xs ! k) [a ..< min (b + 1) (length xs)])"
    by auto
next
  fix i
  assume "i < length (take (b + 1 - a) (drop a xs))"
  then have i: "a + i < min (b + 1) (length xs)"
    by auto
  then have "[a ..< min (b + 1) (length xs)] ! i = a + i"
    by (rule nth_upt)
  moreover have "i < length [a ..< min (b + 1) (length xs)]"
    using i by auto
  ultimately show "take (b + 1 - a) (drop a xs) ! i = map (\<lambda>k. xs ! k) [a ..< min (b + 1) (length xs)] ! i"
    using i by (simp del: upt_Suc)
qed

lemma take_drop_byte_slice:
  assumes "0 \<le> s" and "s \<le> e"
  shows "take (nat (e - s + 1)) (drop (nat s) content) = byte_slice content s e"
proof -
  have n: "nat (e - s + 1) = nat e + 1 - nat s"
    using assms by linarith
  show ?thesis
    unfolding byte_slice_def n by (rule take_drop_nat)
qed

lemma byte_slice_length:
  assumes "0 \<le> s" and "s \<le> e" and "e < int (length content)"
  shows "length (byte_slice content s e) = nat (e - s + 1)"
  using assms unfolding byte_slice_def by (simp add: min_def) linarith

text \<open>
  C1 (as amended). For every request to GET /api/stream/:id whose video record and
  backing file exist and whose Range header is \<open>bytes=<start>-<end>\<close>, with \<open>start\<close> a
  non-empty string of decimal digits, \<open>end\<close> a possibly empty one (then \<open>end\<close> is
  \<open>fileSize - 1\<close>), and \<open>start \<le> end \<le> 2^53 - 1\<close>: the response has status 206,
  Content-Range \<open>bytes <start>-<end>/<fileSize>\<close>, Accept-Ranges \<open>bytes\<close>,
  Content-Length \<open>end - start + 1\<close>, Content-Type \<open>video/mp4\<close>, and as body the bytes
  of the file at the offsets \<open>start\<close> to \<open>end\<close>, which are \<open>end - start + 1\<close> bytes when
  \<open>end\<close> is below the file size.
\<close>

theorem stream_range_partial_content:
  assumes "stored_file st d idParam = Some content"
    and "ds \<noteq> []" and "decimal ds" and "decimal de"
    and "s = int (digitsValue 10 ds)"
    and "e = (if de = [] then int (length content) - 1 else int (digitsValue 10 de))"
    and "s \<le> e" and "e \<le> MAX_SAFE_INTEGER"
  shows "get_stream_id st d idParam (Some (''bytes='' @ ds @ ''-'' @ de))
         = \<lparr>status = 206,
            headers =
              [(''Content-Range'',
                ''bytes '' @ showInt s @ ''-'' @ showInt e @ ''/''
                  @ showInt (int (length content))),
               (''Accept-Ranges'', ''bytes''),
               (''Content-Length'', showInt (e - s + 1)),
               (''Content-Type'', ''video/mp4'')],
            body = FileStream (byte_slice content s e)\<rparr>
         \<and> (e < int (length content) \<longrightarrow> length (byte_slice content s e) = nat (e - s + 1))"
proof -
  have s0: "0 \<le> s"
    using assms(5) by simp
  have b: "s \<le> 2 ^ 53" "e \<le> 2 ^ 53"
    using assms(7,8) by (simp_all add: MAX_SAFE_INTEGER_def)
  have 1: "parseInt ds (Some 10) = Some s"
    using assms(2,3,5) b(1) by (simp add: parseInt_decimal)
  have 2: "(if de = [] then Some (int (length content) - 1) else parseInt de (Some 10)) = Some e"
  proof (cases "de = []")
    case True
    then show ?thesis using assms(6) by simp
  next
    case False
    then have "e = int (digitsValue 10 de)"
      using assms(6) by simp
    then have "parseInt de (Some 10) = Some e"
      using False assms(4) b(2) by (simp add: parseInt_decimal)
    with False show ?thesis by simp
  qed
  have 3: "''bytes='' @ ds @ ''-'' @ de \<noteq> []"
    by simp
  have "createReadStream content (Some s) (Some e)
        = Inr (take (nat (e - s + 1)) (drop (nat s) content))"
    using s0 assms(7,8) by (simp add: createReadStream_def)
  then have 4: "createReadStream content (Some s) (Some e) = Inr (byte_slice content s e)"
    using s0 assms(7) by (simp add: take_drop_byte_slice)
  have "get_stream_id st d idParam (Some (''bytes='' @ ds @ ''-'' @ de))
        = \<lparr>status = 206,
           headers =
             [(''Content-Range'',
               ''bytes '' @ showInt s @ ''-'' @ showInt e @ ''/''
                 @ showInt (int (length content))),
              (''Accept-Ranges'', ''bytes''),
              (''Content-Length'', showInt (e - s + 1)),
              (''Content-Type'', ''video/mp4'')],
           body = FileStream (byte_slice content s e)\<rparr>"
    using range_response [OF assms(1) range_parts [OF assms(3,4)] 3 1 2]
    by (simp only: 4 sum.case)
  then show ?thesis
    using s0 assms(7) by (simp add: byte_slice_length)
qed

lemma parseInt_5_2: "parseInt ''5'' (Some 10) = Some 5 \<and> parseInt ''2'' (Some 10) = Some 2"
  by (simp add: parseInt_def isWhiteSpace_def digitValue_def digitsValue_def
      nearest_double_exact)

theorem stream_range_reversed_counterexample:
  "stored_file sample_store sample_disk ''2'' = Some [1, 2, 3, 4, 5, 6, 7, 8]
   \<and> get_stream_id sample_store sample_disk ''2'' (Some ''bytes=5-2'')
     = json 500 (Message ''Error streaming video'')
   \<and> status (get_stream_id sample_store sample_disk ''2'' (Some ''bytes=5-2'')) \<noteq> 206"
proof -
  have parts: "split_on CHR ''-'' (replace_first ''bytes='' [] ''bytes=5-2'') = [''5'', ''2'']"
    by simp
  have "get_stream_id sample_store sample_disk ''2'' (Some ''bytes=5-2'')
        = json 500 (Message ''Error streaming video'')"
    using range_response [OF sample_stored_file_2 parts, of 5 2] parseInt_5_2
    by (simp add: createReadStream_def)
  then show ?thesis
    using sample_stored_file_2 by (simp add: json_def)
qed

lemma showInt_samples:
  "showInt 100 = ''100''" "showInt 199 = ''199''" "showInt 999 = ''999''"
  "showInt 900 = ''900''" "showInt 1000 = ''1000''"
  by code_simp+

lemma digitsValue_samples: "digitsValue 10 ''100'' = 100" "digitsValue 10 ''199'' = 199"
  by (simp_all add: digitsValue_def digitValue_def)

lemma byte_slice_replicate:
  "byte_slice (replicate m x) s e = replicate (min (nat e + 1) m - nat s) x"
proof -
  have "map (\<lambda>k. replicate m x ! k) [nat s ..< min (nat e + 1) m]
        = map (\<lambda>k. x) [nat s ..< min (nat e + 1) m]"
    by (rule map_cong) auto
  then show ?thesis
    by (simp add: byte_slice_def map_replicate_const del: upt_Suc)
qed

lemma byte_slice_zeros:
  "byte_slice (replicate 1000 0) 100 199 = replicate 100 0"
  "byte_slice (replicate 1000 0) 100 999 = replicate 900 0"
  by (simp_all add: byte_slice_replicate)

theorem stream_range_partial_content_witness:
  "get_stream_id sample_store sample_disk ''1'' (Some ''bytes=100-199'')
     = \<lparr>status = 206,
        headers = [(''Content-Range'', ''bytes 100-199/1000''), (''Accept-Ranges'', ''bytes''),
                   (''Content-Length'', ''100''), (''Content-Type'', ''video/mp4'')],
        body = FileStream (replicate 100 0)\<rparr>
   \<and> get_stream_id sample_store sample_disk ''1'' (Some ''bytes=100-'')
     = \<lparr>status = 206,
        headers = [(''Content-Range'', ''bytes 100-999/1000''), (''Accept-Ranges'', ''bytes''),
                   (''Content-Length'', ''900''), (''Content-Type'', ''video/mp4'')],
        body = FileStream (replicate 900 0)\<rparr>"
proof -
  have d: "''100'' \<noteq> []" "decimal ''100''" "decimal ''199''" "decimal []"
    by (simp_all add: decimal_def)
  have a: "(100 :: int) = int (digitsValue 10 ''100'')"
    by (simp add: digitsValue_samples)
  have b: "(199 :: int) = (if ''199'' = [] then int (length (replicate 1000 (0 :: byte))) - 1
                           else int (digitsValue 10 ''199''))"
    by (simp add: digitsValue_samples)
  have c: "(999 :: int) = (if ([] :: string) = [] then int (length (replicate 1000 (0 :: byte))) - 1
                           else int (digitsValue 10 []))"
    by simp
  have m: "(100 :: int) \<le> 199" "(199 :: int) \<le> MAX_SAFE_INTEGER"
    "(100 :: int) \<le> 999" "(999 :: int) \<le> MAX_SAFE_INTEGER"
    by (simp_all add: MAX_SAFE_INTEGER_def)
  show ?thesis
    using stream_range_partial_content [OF sample_stored_file_1 d(1,2,3) a b m(1,2)]
      stream_range_partial_content [OF sample_stored_file_1 d(1,2,4) a c m(3,4)]
    by (simp add: showInt_samples byte_slice_zeros)
qed

section \<open>Embedding a video by URL\<close>

lemma insertVideoSchema_file:
  assumes "insertVideoSchema vd fname fpath uploader = Some iv"
  shows "iv_fileName iv = Some fname \<and> iv_filePath iv = Some fpath
         \<and> iv_uploaderId iv = uploader"
proof -
  obtain t de em ie th ca du where
    "iv = \<lparr>iv_title = t, iv_description = de, iv_fileName = Some fname,
           iv_filePath = Some fpath, iv_embedUrl = em, iv_isEmbedded = ie,
           iv_thumbnailPath = th, iv_category = ca, iv_uploaderId = uploader,
           iv_duration = du\<rparr>"
    using assms unfolding insertVideoSchema_def
    by (auto split: jsval.splits option.splits)
  then show ?thesis by simp
qed

lemma post_videos_created_has_file:
  assumes "fst (post_videos srv uuid now req) = Respond (json 201 (VideoJson v))"
  shows "fileName v \<noteq> None \<and> filePath v \<noteq> None
         \<and> (\<exists>su. session srv = Some su \<and> uploaderId v = uid su)"
  using assms unfolding post_videos_def upload_single_def
  by (auto simp: json_def createVideo_def Let_def dest!: insertVideoSchema_file
      split: option.splits sum.splits prod.splits videoDataText.splits if_splits)

text \<open>
  C2. The specification gives video ingestion a URL-embed variant: an authenticated
  request with a validated absolute URL and the metadata fields makes a video record
  with \<open>isEmbedded = true\<close> and no stored file, uploaded by the session user. The
  routes do not serve it. No registration takes \<open>POST /api/videos/embed\<close>, the request
  that the upload dialog sends, and \<open>POST /api/videos\<close> answers an authenticated
  request that carries the metadata of an embed and no file with 400 and leaves the
  store and the disk as they are.
\<close>

theorem embed_request_not_served:
  "find_route POST [''videos'', ''embed''] = None
   \<and> post_videos (sample_server alice) ''u9'' 3000 embed_request
     = (Respond (json 400 (Message ''No video file uploaded'')), sample_server alice)"
proof -
  have 1: "session (sample_server alice) = Some alice"
    by (simp add: sample_server_def)
  have 2: "req_file embed_request = None"
    by (simp add: embed_request_def)
  have 3: "find_route POST [''videos'', ''embed''] = None"
    by (simp add: find_route_def apiRoutes_def route_matches_def)
  show ?thesis
    using post_videos_requires_file [OF 1 2, of "''u9''" 3000] 3 by simp
qed

end
